theory Spec2Isabelle
  imports Main
begin

section \<open>Values, errors and the execution context\<close>

text \<open>
  The instructions of \<^verbatim>\<open>sa/annotation/vm/instruction.py\<close> work on untyped Python
  values. The embedding keeps the kinds of value the code tells apart with
  \<^verbatim>\<open>isinstance\<close>: a string, a pandas frame or series (its rows), a generator (the
  values it has still to yield), and a graph node \<^verbatim>\<open>Operation\<close> with its
  \<^verbatim>\<open>.value\<close>. Integers and \<^verbatim>\<open>None\<close> stand for the constants.
\<close>

datatype pyval =
    PNone
  | PInt int
  | PStr string
  | PFrame "pyval list"
  | PGen "pyval list"
  | POperation pyval

text \<open>Python exceptions are values; every \<^verbatim>\<open>raise\<close> is a branch of the model.\<close>

datatype error =
    KeyError
  | IndexError
  | StopIteration
  | ValueError string
  | TypeError
  | Exception string

text \<open>
  What a call of \<^verbatim>\<open>evaluate\<close> does: it returns a value (\<^verbatim>\<open>None\<close> when the body
  falls off its end) or raises.
\<close>

datatype outcome = Return pyval | Raise error

text \<open>
  Modelled from the spec: the \<^verbatim>\<open>Backend\<close> enumeration of \<^verbatim>\<open>sa/annotation/backend.py\<close>
  is not among the sources; the spec describes it as a tag with a general-purpose and
  an accelerator member.
\<close>

datatype Backend = CPU | GPU

text \<open>
  \<^verbatim>\<open>values\<close> maps an argument id to the input value; \<^verbatim>\<open>context\<close> maps an argument id
  to the list of values produced for it so far. Both are dictionaries: a missing key
  raises \<^verbatim>\<open>KeyError\<close>. The last element of a list is the most recent one.
\<close>

type_synonym "values" = "nat \<rightharpoonup> pyval"
type_synonym "context" = "nat \<rightharpoonup> pyval list"

text \<open>\<^verbatim>\<open>context[target][-1]\<close>: the top of a slot.\<close>

definition context_top :: "context \<Rightarrow> nat \<Rightarrow> error + pyval" where
  "context_top context target =
     (case context target of
        None \<Rightarrow> Inl KeyError
      | Some stack \<Rightarrow> if stack = [] then Inl IndexError else Inr (last stack))"

text \<open>\<^verbatim>\<open>next(g)\<close> on a generator: its next value, or \<^verbatim>\<open>StopIteration\<close> once finished.\<close>

definition py_next :: "pyval list \<Rightarrow> error + (pyval \<times> pyval list)" where
  "py_next g = (case g of [] \<Rightarrow> Inl StopIteration | x # rest \<Rightarrow> Inr (x, rest))"

text \<open>
  A list comprehension over fallible reads evaluates them in order and raises at the
  first that fails.
\<close>

fun gather :: "(error + 'a) list \<Rightarrow> error + 'a list" where
  "gather [] = Inr []"
| "gather (r # rs) =
     (case r of
        Inl e \<Rightarrow> Inl e
      | Inr v \<Rightarrow> (case gather rs of Inl e \<Rightarrow> Inl e | Inr vs \<Rightarrow> Inr (v # vs)))"

text \<open>\<^verbatim>\<open>dict(pairs)\<close>: a later pair overrides an earlier one with the same key.\<close>

definition py_dict :: "('k \<times> 'v) list \<Rightarrow> ('k \<rightharpoonup> 'v)" where
  "py_dict pairs = map_of (rev pairs)"

text \<open>
  \<^verbatim>\<open>xs[start:end]\<close> with integer bounds: a negative bound counts from the end, and
  both bounds are clamped to the length.
\<close>

definition slice_bound :: "int \<Rightarrow> nat \<Rightarrow> nat" where
  "slice_bound i n = (if i < 0 then nat (max 0 (i + int n)) else min (nat i) n)"

definition py_slice :: "int \<Rightarrow> int \<Rightarrow> 'a list \<Rightarrow> 'a list" where
  "py_slice start stop xs =
     (let lo = slice_bound start (length xs); hi = slice_bound stop (length xs)
      in take (hi - lo) (drop lo xs))"

section \<open>Split types\<close>

text \<open>
  A split type is an object with the methods \<^verbatim>\<open>split\<close>, \<^verbatim>\<open>elements\<close> and \<^verbatim>\<open>to\<close>
  that the instructions call. The base class \<^verbatim>\<open>SplitType\<close> lives in
  \<^verbatim>\<open>sa/annotation/split_types.py\<close>, which is not among the sources, so the
  instructions are modelled over any record of the three methods.
\<close>

record SplitType =
  split :: "int \<Rightarrow> int \<Rightarrow> pyval \<Rightarrow> error + pyval"
  elements :: "pyval \<Rightarrow> error + int option"
  to :: "pyval \<Rightarrow> Backend \<Rightarrow> error + pyval"

subsection \<open>The pandas split types of \<^verbatim>\<open>sa/annotated/pandas/annotated.py\<close>\<close>

text \<open>
  \<^verbatim>\<open>DataFrameSplit.split\<close>: a value that is neither a frame nor a series is taken for
  a constant and returned as it is; a frame is sliced by rows.
\<close>

definition DataFrameSplit_split :: "int \<Rightarrow> int \<Rightarrow> pyval \<Rightarrow> error + pyval" where
  "DataFrameSplit_split start stop v =
     (case v of PFrame rows \<Rightarrow> Inr (PFrame (py_slice start stop rows)) | _ \<Rightarrow> Inr v)"

definition DataFrameSplit_elements :: "pyval \<Rightarrow> error + int option" where
  "DataFrameSplit_elements v =
     (case v of PFrame rows \<Rightarrow> Inr (Some (int (length rows))) | _ \<Rightarrow> Inr None)"

text \<open>
  The object \<^verbatim>\<open>DataFrameSplit()\<close>. Its method \<^verbatim>\<open>to\<close> is inherited from the base class
  and is a parameter here.
\<close>

definition DataFrameSplit :: "(pyval \<Rightarrow> Backend \<Rightarrow> error + pyval) \<Rightarrow> SplitType" where
  "DataFrameSplit inherited_to =
     \<lparr>split = DataFrameSplit_split, elements = DataFrameSplit_elements, to = inherited_to\<rparr>"








section \<open>The Split instruction\<close>

text \<open>
  \<^verbatim>\<open>self.splitter\<close> is \<^verbatim>\<open>None\<close> until the first evaluation, then either the generator
  the first split returned or the bound method \<^verbatim>\<open>self.ty.split\<close>.
\<close>

datatype splitter =
    SplitterNone
  | SplitterGen "pyval list"
  | SplitterFun "int \<Rightarrow> int \<Rightarrow> pyval \<Rightarrow> error + pyval"

record Split =
  target :: nat
  ty :: SplitType
  splitter :: splitter
  backend :: Backend
  batch_size :: int
  index_to_split :: "pyval option"

text \<open>\<^verbatim>\<open>Split.__init__\<close>.\<close>

definition Split_init :: "nat \<Rightarrow> SplitType \<Rightarrow> Backend \<Rightarrow> int \<Rightarrow> Split" where
  "Split_init tgt t b n =
     \<lparr>Split.target = tgt, Split.ty = t, splitter = SplitterNone, Split.backend = b,
      Split.batch_size = n, index_to_split = None\<rparr>"

text \<open>Lines 67 and 68: a graph node stands for its \<^verbatim>\<open>.value\<close>.\<close>

definition Operation_value :: "pyval \<Rightarrow> pyval" where
  "Operation_value v0 = (case v0 of POperation inner \<Rightarrow> inner | _ \<Rightarrow> v0)"

text \<open>
  \<^verbatim>\<open>Split.evaluate\<close>, lines 62 to 73: the batch window, the value of the slot with a
  graph node unwrapped and narrowed to the index range of the thread, and the end of
  the window clamped to the number of elements when the split type knows it.
\<close>

definition Split_window ::
  "Split \<Rightarrow> int \<times> int \<Rightarrow> int \<Rightarrow> values \<Rightarrow> error + (int \<times> int \<times> pyval)" where
  "Split_window self index_range batch_index vals =
     (let start = 0 + Split.batch_size self * batch_index;
          stop = start + Split.batch_size self
      in case vals (Split.target self) of
           None \<Rightarrow> Inl KeyError
         | Some v0 \<Rightarrow>
             (case split (Split.ty self) (fst index_range) (snd index_range)
                     (Operation_value v0) of
                   Inl e \<Rightarrow> Inl e
                 | Inr v \<Rightarrow>
                     (case elements (Split.ty self) v of
                        Inl e \<Rightarrow> Inl e
                      | Inr num_elements \<Rightarrow>
                          Inr (start,
                               (case num_elements of None \<Rightarrow> stop | Some n \<Rightarrow> min stop n),
                               v))))"

text \<open>
  Lines 74 to 86: the result of this batch and the splitter the instruction keeps.
  The first evaluation (no splitter yet) calls the split; a generator is stored and
  pulled once, anything else stores the split method. A later evaluation pulls the
  stored generator or calls the stored method. An exception leaves the splitter as
  the code had set it when it was raised.
\<close>

definition Split_pull :: "Split \<Rightarrow> int \<Rightarrow> int \<Rightarrow> pyval \<Rightarrow> (error + pyval) \<times> Split" where
  "Split_pull self start stop v =
     (case splitter self of
        SplitterNone \<Rightarrow>
          (case split (Split.ty self) start stop v of
             Inl e \<Rightarrow> (Inl e, self)
           | Inr result \<Rightarrow>
               (case result of
                  PGen g \<Rightarrow>
                    (case py_next g of
                       Inl e \<Rightarrow> (Inl e, self\<lparr>splitter := SplitterGen g\<rparr>)
                     | Inr (x, rest) \<Rightarrow> (Inr x, self\<lparr>splitter := SplitterGen rest\<rparr>))
                | _ \<Rightarrow> (Inr result, self\<lparr>splitter := SplitterFun (split (Split.ty self))\<rparr>)))
      | SplitterGen g \<Rightarrow>
          (case py_next g of
             Inl e \<Rightarrow> (Inl e, self)
           | Inr (x, rest) \<Rightarrow> (Inr x, self\<lparr>splitter := SplitterGen rest\<rparr>))
      | SplitterFun f \<Rightarrow> (f start stop v, self))"

text \<open>
  Lines 88 to 91. \<^verbatim>\<open>STOP_ITERATION\<close> is imported from \<^verbatim>\<open>sa/annotation/vm/driver.py\<close>,
  which is not among the sources: it is a parameter of the model, a string since the
  code compares it with strings only. A result that is a string and equal to it makes
  the evaluation return it, and nothing is appended; any other result is appended to
  the list of the target.
\<close>

definition is_stop :: "string \<Rightarrow> pyval \<Rightarrow> bool" where
  "is_stop STOP_ITERATION result =
     (case result of PStr s \<Rightarrow> s = STOP_ITERATION | _ \<Rightarrow> False)"

definition Split_emit :: "string \<Rightarrow> Split \<Rightarrow> pyval \<Rightarrow> context \<Rightarrow> outcome \<times> Split \<times> context" where
  "Split_emit STOP_ITERATION self result context =
     (if is_stop STOP_ITERATION result then (Return (PStr STOP_ITERATION), self, context)
      else (case context (Split.target self) of
              None \<Rightarrow> (Raise KeyError, self, context)
            | Some stack \<Rightarrow>
                (Return PNone, self, context(Split.target self \<mapsto> stack @ [result]))))"

text \<open>\<^verbatim>\<open>Split.evaluate\<close>: the three parts in sequence.\<close>

definition Split_evaluate ::
  "string \<Rightarrow> Split \<Rightarrow> nat \<Rightarrow> int \<times> int \<Rightarrow> int \<Rightarrow> values \<Rightarrow> context
     \<Rightarrow> outcome \<times> Split \<times> context" where
  "Split_evaluate STOP_ITERATION self thread index_range batch_index vals context =
     (case Split_window self index_range batch_index vals of
        Inl e \<Rightarrow> (Raise e, self, context)
      | Inr (start, stop, v) \<Rightarrow>
          (case Split_pull self start stop v of
             (Inl e, self') \<Rightarrow> (Raise e, self', context)
           | (Inr result, self') \<Rightarrow> Split_emit STOP_ITERATION self' result context))"



section \<open>The Merge instruction\<close>

record Merge =
  target :: nat
  ty :: SplitType
  backend :: Backend
  batch_size :: int

definition Merge_evaluate ::
  "Merge \<Rightarrow> nat \<Rightarrow> int \<times> int \<Rightarrow> int \<Rightarrow> values \<Rightarrow> context \<Rightarrow> outcome \<times> Merge \<times> context" where
  "Merge_evaluate self thread index_range batch_index vals context =
     (Raise (Exception
        ''this is not called since the pipeline can only have a single batch size''),
      self, context)"

section \<open>The Call instruction\<close>

text \<open>
  The function called is any Python callable. It receives the positional and the
  keyword arguments, may change the world outside the virtual machine (\<open>'w\<close>), and
  returns or raises.
\<close>

record 'w Call =
  target :: "nat option"
  func :: "pyval list \<Rightarrow> (string \<rightharpoonup> pyval) \<Rightarrow> 'w \<Rightarrow> (error + pyval) \<times> 'w"
  args :: "nat list"
  kwargs :: "(string \<times> nat) list"
  ty :: SplitType
  backend :: Backend
  batch_size :: int

definition Call_get_args :: "'w Call \<Rightarrow> context \<Rightarrow> error + pyval list" where
  "Call_get_args self context = gather (map (context_top context) (args self))"

definition Call_get_kwargs :: "'w Call \<Rightarrow> context \<Rightarrow> error + (string \<rightharpoonup> pyval)" where
  "Call_get_kwargs self context =
     (case gather (map (\<lambda>(name, tgt).
                     case context_top context tgt of
                       Inl e \<Rightarrow> Inl e
                     | Inr v \<Rightarrow> Inr (name, v)) (kwargs self)) of
        Inl e \<Rightarrow> Inl e
      | Inr pairs \<Rightarrow> Inr (py_dict pairs))"

definition Call_evaluate ::
  "'w Call \<Rightarrow> nat \<Rightarrow> int \<times> int \<Rightarrow> int \<Rightarrow> values \<Rightarrow> context \<Rightarrow> 'w
     \<Rightarrow> outcome \<times> 'w Call \<times> context \<times> 'w" where
  "Call_evaluate self thread index_range batch_index vals context world =
     (case Call_get_args self context of
        Inl e \<Rightarrow> (Raise e, self, context, world)
      | Inr a \<Rightarrow>
          (case Call_get_kwargs self context of
             Inl e \<Rightarrow> (Raise e, self, context, world)
           | Inr k \<Rightarrow>
               (case func self a k world of
                  (Inl e, world') \<Rightarrow> (Raise e, self, context, world')
                | (Inr result, world') \<Rightarrow>
                    (case Call.target self of
                       None \<Rightarrow> (Return PNone, self, context, world')
                     | Some tgt \<Rightarrow>
                         (case context tgt of
                            None \<Rightarrow> (Raise KeyError, self, context, world')
                          | Some stack \<Rightarrow>
                              (Return PNone, self, context(tgt \<mapsto> stack @ [result]),
                               world'))))))"

definition Call_remove_target :: "'w Call \<Rightarrow> 'w Call" where
  "Call_remove_target self = self\<lparr>Call.target := None\<rparr>"

text \<open>
  The operations of the class on an instruction that exists: \<^verbatim>\<open>evaluate\<close>,
  \<^verbatim>\<open>remove_target\<close>, and the readers \<^verbatim>\<open>get_args\<close>, \<^verbatim>\<open>get_kwargs\<close> and \<^verbatim>\<open>__str__\<close>,
  which return a value and assign nothing. A step applies one of them to the
  instruction, the context and the world.
\<close>

datatype Call_operation =
    Op_evaluate nat "int \<times> int" int "values"
  | Op_remove_target
  | Op_get_args
  | Op_get_kwargs
  | Op_str

fun Call_step :: "Call_operation \<Rightarrow> 'w Call \<times> context \<times> 'w \<Rightarrow> 'w Call \<times> context \<times> 'w" where
  "Call_step (Op_evaluate thread index_range batch_index vals) (self, context, world) =
     snd (Call_evaluate self thread index_range batch_index vals context world)"
| "Call_step Op_remove_target (self, context, world) = (Call_remove_target self, context, world)"
| "Call_step Op_get_args s = s"
| "Call_step Op_get_kwargs s = s"
| "Call_step Op_str s = s"

section \<open>The To instruction\<close>

record To =
  target :: nat
  ty :: SplitType
  backend :: Backend

definition To_evaluate ::
  "To \<Rightarrow> nat \<Rightarrow> int \<times> int \<Rightarrow> int \<Rightarrow> values \<Rightarrow> context \<Rightarrow> outcome \<times> To \<times> context" where
  "To_evaluate self thread index_range batch_index vals context =
     (case context (To.target self) of
        None \<Rightarrow> (Raise KeyError, self, context)
      | Some stack \<Rightarrow>
          if stack = [] then (Raise IndexError, self, context)
          else (case to (To.ty self) (last stack) (To.backend self) of
                  Inl e \<Rightarrow> (Raise e, self, context)
                | Inr new_value \<Rightarrow>
                    (Return PNone, self,
                     context(To.target self \<mapsto> stack[length stack - 1 := new_value]))))"

section \<open>Properties of Split\<close>

lemma Split_pull_target:
  "Split.target (snd (Split_pull self start stop v)) = Split.target self"
  by (simp add: Split_pull_def py_next_def
      split: splitter.splits sum.splits pyval.splits list.splits prod.splits)



text \<open>
  C2, as the code has it. When the result of the batch is a string equal to the
  exhaustion marker, the evaluation returns the marker and appends nothing; any other
  result is appended to the list of the target in the context, and the evaluation
  returns \<^verbatim>\<open>None\<close>. The marker is told from data by its value alone: a result is
  taken for the marker exactly when it is the string \<open>STOP_ITERATION\<close>.
\<close>

theorem Split_evaluate_marker:
  assumes "Split_window self index_range b vals = Inr (start, stop, v)"
    and "Split_pull self start stop v = (Inr result, self')"
    and "ctx (Split.target self) = Some stack"
  shows "Split_evaluate M self thread index_range b vals ctx =
           (if result = PStr M then (Return (PStr M), self', ctx)
            else (Return PNone, self', ctx(Split.target self \<mapsto> stack @ [result])))"
proof -
  have t: "Split.target self' = Split.target self"
    using Split_pull_target [of self start stop v] assms(2) by simp
  have s: "is_stop M result = (result = PStr M)"
    by (cases result) (auto simp: is_stop_def)
  show ?thesis
    using assms by (simp add: Split_evaluate_def Split_emit_def t s)
qed

text \<open>
  A frame whose first row holds the string of the marker is data: the batch is a
  frame, not a string, and it is appended.
\<close>

theorem Split_evaluate_marker_witness:
  "(let self = Split_init 0 (DataFrameSplit (\<lambda>v b. Inr v)) CPU 2;
        rows = PFrame [PStr ''stop'', PInt 2, PInt 3];
        vals = [0 \<mapsto> rows]
    in Split_window self (0, 4) 0 vals = Inr (0, 2, rows)
     \<and> Split_pull self 0 2 rows =
           (Inr (PFrame [PStr ''stop'', PInt 2]), self\<lparr>splitter := SplitterFun DataFrameSplit_split\<rparr>)
     \<and> Split_evaluate ''stop'' self 7 (0, 4) 0 vals [0 \<mapsto> [PInt 9]] =
           (Return PNone, self\<lparr>splitter := SplitterFun DataFrameSplit_split\<rparr>,
            [0 \<mapsto> [PInt 9, PFrame [PStr ''stop'', PInt 2]]]))"
proof -
  let ?self = "Split_init 0 (DataFrameSplit (\<lambda>v b. Inr v)) CPU 2"
  let ?rows = "PFrame [PStr ''stop'', PInt 2, PInt 3]"
  let ?vals = "[(0::nat) \<mapsto> ?rows]"
  note defs = Split_init_def DataFrameSplit_def DataFrameSplit_split_def
    DataFrameSplit_elements_def Operation_value_def py_slice_def slice_bound_def
  have w: "Split_window ?self (0, 4) 0 ?vals = Inr (0, 2, ?rows)"
    by (simp add: Split_window_def defs)
  have p: "Split_pull ?self 0 2 ?rows =
             (Inr (PFrame [PStr ''stop'', PInt 2]), ?self\<lparr>splitter := SplitterFun DataFrameSplit_split\<rparr>)"
    by (simp add: Split_pull_def defs)
  have c: "[(0::nat) \<mapsto> [PInt 9]] (Split.target ?self) = Some [PInt 9]"
    by (simp add: Split_init_def)
  have e: "Split_evaluate ''stop'' ?self 7 (0, 4) 0 ?vals [0 \<mapsto> [PInt 9]] =
             (Return PNone, ?self\<lparr>splitter := SplitterFun DataFrameSplit_split\<rparr>,
              [0 \<mapsto> [PInt 9, PFrame [PStr ''stop'', PInt 2]]])"
    using Split_evaluate_marker
      [where ctx = "[0 \<mapsto> [PInt 9]]" and M = "''stop''" and thread = 7, OF w p c]
    by (simp add: Split_init_def)
  show ?thesis
    unfolding Let_def using w p e by (intro conjI)
qed

text \<open>
  C2 as stated fails: a data value can be mistaken for the marker. With the marker
  \<^verbatim>\<open>"stop"\<close>, the constant string \<^verbatim>\<open>"stop"\<close> in a slot split by \<^verbatim>\<open>DataFrameSplit\<close>
  (which returns a constant as it is) makes the evaluation return the marker and
  append nothing, where the constant \<^verbatim>\<open>"step"\<close> is appended.
\<close>

theorem Split_evaluate_marker_collision:
  "Split_evaluate ''stop'' (Split_init 0 (DataFrameSplit (\<lambda>v b. Inr v)) CPU 2) 7 (0, 4) 0
       [0 \<mapsto> PStr ''stop''] [0 \<mapsto> []]
     = (Return (PStr ''stop''),
        (Split_init 0 (DataFrameSplit (\<lambda>v b. Inr v)) CPU 2)\<lparr>splitter := SplitterFun DataFrameSplit_split\<rparr>,
        [0 \<mapsto> []])
   \<and> Split_evaluate ''stop'' (Split_init 0 (DataFrameSplit (\<lambda>v b. Inr v)) CPU 2) 7 (0, 4) 0
       [0 \<mapsto> PStr ''step''] [0 \<mapsto> []]
     = (Return PNone,
        (Split_init 0 (DataFrameSplit (\<lambda>v b. Inr v)) CPU 2)\<lparr>splitter := SplitterFun DataFrameSplit_split\<rparr>,
        [0 \<mapsto> [PStr ''step'']])"
  by (simp add: Split_evaluate_def Split_window_def Split_pull_def Split_emit_def is_stop_def
      Split_init_def DataFrameSplit_def DataFrameSplit_split_def DataFrameSplit_elements_def
      Operation_value_def)

text \<open>
  C3. A fresh instruction has no splitter. An evaluation without a splitter calls
  \<open>split\<close> on the window and the narrowed value: a generator is kept as the splitter
  and its first element is the result; any other result is used as it is and the
  split method is kept. A later evaluation takes the next element of a kept
  generator, or calls the kept method on the window of that evaluation.
\<close>

theorem Split_evaluate_memo:
  assumes "Split_window self index_range b vals = Inr (start, stop, v)"
  shows "(splitter self = SplitterNone \<and> split (Split.ty self) start stop v = Inr (PGen (x # rest))
            \<longrightarrow> Split_evaluate M self thread index_range b vals ctx =
                  Split_emit M (self\<lparr>splitter := SplitterGen rest\<rparr>) x ctx)
       \<and> (splitter self = SplitterNone \<and> split (Split.ty self) start stop v = Inr result
            \<and> (\<forall>g. result \<noteq> PGen g)
            \<longrightarrow> Split_evaluate M self thread index_range b vals ctx =
                  Split_emit M (self\<lparr>splitter := SplitterFun (split (Split.ty self))\<rparr>) result ctx)
       \<and> (splitter self = SplitterGen (x # rest)
            \<longrightarrow> Split_evaluate M self thread index_range b vals ctx =
                  Split_emit M (self\<lparr>splitter := SplitterGen rest\<rparr>) x ctx)
       \<and> (splitter self = SplitterFun f \<and> f start stop v = Inr result
            \<longrightarrow> Split_evaluate M self thread index_range b vals ctx =
                  Split_emit M self result ctx)
       \<and> splitter (Split_init tgt t bk n) = SplitterNone"
proof -
  have eager: "(case result of PGen g \<Rightarrow> a g | _ \<Rightarrow> c) = c"
    if "\<forall>g. result \<noteq> PGen g" for a :: "pyval list \<Rightarrow> 'z" and c
    using that by (cases result) auto
  show ?thesis
    using assms
    by (auto simp: Split_evaluate_def Split_pull_def py_next_def Split_init_def eager)
qed

text \<open>
  Two evaluations of a lazy split type (its split of a frame is a generator of the
  rows, and a generator passes through), then two of \<^verbatim>\<open>DataFrameSplit\<close>.
\<close>

theorem Split_evaluate_memo_witness:
  "(let lazy = \<lparr>split = (\<lambda>s e v. case v of PFrame rows \<Rightarrow> Inr (PGen (py_slice s e rows)) | _ \<Rightarrow> Inr v),
                 elements = (\<lambda>v. Inr None), to = (\<lambda>v b. Inr v)\<rparr>;
        fresh = Split_init 0 lazy CPU 1;
        vals = [0 \<mapsto> PFrame [PInt 5, PInt 6]]
    in Split_window fresh (0, 2) 0 vals = Inr (0, 1, PGen [PInt 5, PInt 6])
     \<and> Split_evaluate ''stop'' fresh 0 (0, 2) 0 vals [0 \<mapsto> []] =
           (Return PNone, fresh\<lparr>splitter := SplitterGen [PInt 6]\<rparr>, [0 \<mapsto> [PInt 5]])
     \<and> Split_window (fresh\<lparr>splitter := SplitterGen [PInt 6]\<rparr>) (0, 2) 1 vals =
           Inr (1, 2, PGen [PInt 5, PInt 6])
     \<and> Split_evaluate ''stop'' (fresh\<lparr>splitter := SplitterGen [PInt 6]\<rparr>) 0 (0, 2) 1 vals [0 \<mapsto> []] =
           (Return PNone, fresh\<lparr>splitter := SplitterGen []\<rparr>, [0 \<mapsto> [PInt 6]]))
   \<and> (let fresh = Split_init 0 (DataFrameSplit (\<lambda>v b. Inr v)) CPU 1;
          vals = [0 \<mapsto> PFrame [PInt 5, PInt 6]]
      in Split_window fresh (0, 2) 0 vals = Inr (0, 1, PFrame [PInt 5, PInt 6])
       \<and> Split_evaluate ''stop'' fresh 0 (0, 2) 0 vals [0 \<mapsto> []] =
             (Return PNone, fresh\<lparr>splitter := SplitterFun DataFrameSplit_split\<rparr>,
              [0 \<mapsto> [PFrame [PInt 5]]])
       \<and> Split_window (fresh\<lparr>splitter := SplitterFun DataFrameSplit_split\<rparr>) (0, 2) 1 vals =
             Inr (1, 2, PFrame [PInt 5, PInt 6])
       \<and> Split_evaluate ''stop'' (fresh\<lparr>splitter := SplitterFun DataFrameSplit_split\<rparr>) 0 (0, 2) 1 vals
               [0 \<mapsto> []] =
             (Return PNone, fresh\<lparr>splitter := SplitterFun DataFrameSplit_split\<rparr>,
              [0 \<mapsto> [PFrame [PInt 6]]]))"
proof -
  define lazy where "lazy = \<lparr>split = (\<lambda>s e v. case v of PFrame rows \<Rightarrow> Inr (PGen (py_slice s e rows)) | _ \<Rightarrow> Inr v),
                 elements = (\<lambda>v. Inr None), to = (\<lambda>v b. Inr v)\<rparr>"
  define vals :: "values" where "vals = [0 \<mapsto> PFrame [PInt 5, PInt 6]]"
  define l0 where "l0 = Split_init 0 lazy CPU 1"
  define l1 where "l1 = l0\<lparr>splitter := SplitterGen [PInt 6]\<rparr>"
  define e0 where "e0 = Split_init 0 (DataFrameSplit (\<lambda>v b. Inr v)) CPU 1"
  define e1 where "e1 = e0\<lparr>splitter := SplitterFun DataFrameSplit_split\<rparr>"
  note defs = lazy_def vals_def l0_def l1_def e0_def e1_def Split_init_def Split_window_def
    Operation_value_def DataFrameSplit_def DataFrameSplit_split_def DataFrameSplit_elements_def
    py_slice_def slice_bound_def
  have wl0: "Split_window l0 (0, 2) 0 vals = Inr (0, 1, PGen [PInt 5, PInt 6])"
    by (simp add: defs)
  have wl1: "Split_window l1 (0, 2) 1 vals = Inr (1, 2, PGen [PInt 5, PInt 6])"
    by (simp add: defs)
  have we0: "Split_window e0 (0, 2) 0 vals = Inr (0, 1, PFrame [PInt 5, PInt 6])"
    by (simp add: defs)
  have we1: "Split_window e1 (0, 2) 1 vals = Inr (1, 2, PFrame [PInt 5, PInt 6])"
    by (simp add: defs)
  have a: "Split_evaluate ''stop'' l0 0 (0, 2) 0 vals [0 \<mapsto> []] =
             (Return PNone, l0\<lparr>splitter := SplitterGen [PInt 6]\<rparr>, [0 \<mapsto> [PInt 5]])"
    using Split_evaluate_memo [OF wl0, of "PInt 5" "[PInt 6]" "''stop''" 0 "[0 \<mapsto> []]"]
    by (simp add: defs Split_emit_def is_stop_def)
  have b: "Split_evaluate ''stop'' l1 0 (0, 2) 1 vals [0 \<mapsto> []] =
             (Return PNone, l0\<lparr>splitter := SplitterGen []\<rparr>, [0 \<mapsto> [PInt 6]])"
    using Split_evaluate_memo [OF wl1, of "PInt 6" "[]" "''stop''" 0 "[0 \<mapsto> []]"]
    by (simp add: defs Split_emit_def is_stop_def)
  have c: "Split_evaluate ''stop'' e0 0 (0, 2) 0 vals [0 \<mapsto> []] =
             (Return PNone, e1, [0 \<mapsto> [PFrame [PInt 5]]])"
    using Split_evaluate_memo [OF we0, of _ _ "''stop''" 0 "[0 \<mapsto> []]" "PFrame [PInt 5]"]
    by (simp add: defs Split_emit_def is_stop_def)
  have d: "Split_evaluate ''stop'' e1 0 (0, 2) 1 vals [0 \<mapsto> []] =
             (Return PNone, e1, [0 \<mapsto> [PFrame [PInt 6]]])"
    using Split_evaluate_memo [OF we1, of _ _ "''stop''" 0 "[0 \<mapsto> []]" "PFrame [PInt 6]"
        DataFrameSplit_split]
    by (simp add: defs Split_emit_def is_stop_def)
  show ?thesis
    using wl0 wl1 we0 we1 a b c d
    by (simp add: Let_def lazy_def vals_def l0_def l1_def e0_def e1_def Split_init_def
        DataFrameSplit_def DataFrameSplit_split_def py_slice_def slice_bound_def)
qed

subsection \<open>Exhaustion over the evaluations of a thread\<close>






section \<open>Properties of Merge\<close>

text \<open>
  C4. Evaluating a Merge instruction raises an exception for every thread, index
  range, batch index, input values and context; it never returns, and the
  instruction and the context are as they were.
\<close>

theorem Merge_evaluate_raises:
  "fst (Merge_evaluate self thread index_range batch_index vals ctx) =
     Raise (Exception ''this is not called since the pipeline can only have a single batch size'')
   \<and> fst (Merge_evaluate self thread index_range batch_index vals ctx) \<noteq> Return r
   \<and> snd (Merge_evaluate self thread index_range batch_index vals ctx) = (self, ctx)"
  by (simp add: Merge_evaluate_def)

section \<open>Properties of Call\<close>





lemma Call_step_no_target:
  assumes "Call.target self = None"
  shows "Call.target (fst (Call_step operation (self, ctx, world))) = None
       \<and> fst (snd (Call_step operation (self, ctx, world))) = ctx"
  using assms
  by (cases operation)
     (auto simp: Call_evaluate_def Call_remove_target_def split: sum.splits prod.splits)

lemma Call_steps_no_target:
  assumes "Call.target self = None"
  shows "Call.target (fst (fold Call_step operations (self, ctx, world))) = None
       \<and> fst (snd (fold Call_step operations (self, ctx, world))) = ctx"
  using assms
proof (induction operations arbitrary: self world)
  case Nil
  then show ?case by simp
next
  case (Cons operation operations)
  obtain self' ctx' world' where s: "Call_step operation (self, ctx, world) = (self', ctx', world')"
    by (cases "Call_step operation (self, ctx, world)")
  with Call_step_no_target [OF Cons.prems, of operation ctx world]
  have "Call.target self' = None" "ctx' = ctx" by simp_all
  with Cons.IH [of self' world'] s show ?case by simp
qed

text \<open>
  C9. After \<^verbatim>\<open>remove_target\<close> the instruction has no target, and whatever operations
  of the class follow, in any number and order (evaluations, further removals, the
  readers), the instruction still has no target and the context is the one before
  them: no evaluation appends a value for the former target, or for any slot.
\<close>

theorem Call_remove_target_one_way:
  "Call.target (Call_remove_target self) = None
   \<and> Call.target (fst (fold Call_step operations (Call_remove_target self, ctx, world))) = None
   \<and> fst (snd (fold Call_step operations (Call_remove_target self, ctx, world))) = ctx"
  using Call_steps_no_target [of "Call_remove_target self" operations ctx world]
  by (simp add: Call_remove_target_def)

text \<open>
  Five operations after the removal: both evaluations call the function (the world
  counts two calls) and slot 1, the former target, stays empty; the same evaluation
  of the instruction with its target appends to slot 1.
\<close>

theorem Call_remove_target_one_way_witness:
  "(let f = (\<lambda>a k (w::nat). (Inr (PInt 1), Suc w));
        ctx = [0 \<mapsto> [PInt 5], 1 \<mapsto> []];
        self = \<lparr>Call.target = Some 1, func = f, args = [0], kwargs = [],
                Call.ty = DataFrameSplit (\<lambda>v b. Inr v), Call.backend = CPU, Call.batch_size = 2\<rparr>
    in fold Call_step [Op_evaluate 0 (0, 4) 0 Map.empty, Op_get_args, Op_remove_target, Op_str,
                       Op_evaluate 0 (0, 4) 1 Map.empty] (Call_remove_target self, ctx, 0)
         = (Call_remove_target self, ctx, 2)
     \<and> fold Call_step [Op_evaluate 0 (0, 4) 0 Map.empty] (self, ctx, 0)
         = (self, ctx(1 \<mapsto> [PInt 1]), 1))"
proof -
  define f :: "pyval list \<Rightarrow> (string \<rightharpoonup> pyval) \<Rightarrow> nat \<Rightarrow> (error + pyval) \<times> nat"
    where "f = (\<lambda>a k w. (Inr (PInt 1), Suc w))"
  define ctx :: "context" where "ctx = [0 \<mapsto> [PInt 5], 1 \<mapsto> []]"
  define self where "self = \<lparr>Call.target = Some 1, func = f, args = [0], kwargs = [],
                Call.ty = DataFrameSplit (\<lambda>v b. Inr v), Call.backend = CPU, Call.batch_size = 2\<rparr>"
  have "fold Call_step [Op_evaluate 0 (0, 4) 0 Map.empty, Op_get_args, Op_remove_target, Op_str,
                       Op_evaluate 0 (0, 4) 1 Map.empty] (Call_remove_target self, ctx, 0)
         = (Call_remove_target self, ctx, 2)
     \<and> fold Call_step [Op_evaluate 0 (0, 4) 0 Map.empty] (self, ctx, 0)
         = (self, ctx(1 \<mapsto> [PInt 1]), 1)"
    using Call_remove_target_one_way
      [of self "[Op_evaluate 0 (0, 4) 0 Map.empty, Op_get_args, Op_remove_target, Op_str,
                 Op_evaluate 0 (0, 4) 1 Map.empty]" ctx 0]
    by (simp add: self_def ctx_def f_def Call_remove_target_def Call_evaluate_def Call_get_args_def
        Call_get_kwargs_def context_top_def py_dict_def)
  then show ?thesis
    by (simp add: Let_def self_def ctx_def f_def)
qed

section \<open>Properties of To\<close>

text \<open>
  C8. In a context whose target slot holds a value, the evaluation reads the top of
  the slot and converts it with \<open>to\<close> of the split type and the backend of the
  instruction; the converted value takes the place of the top. Whether \<open>to\<close> returns
  or raises, the slot is as deep after the evaluation as before, and every other
  slot is as it was.
\<close>

theorem To_evaluate_depth:
  assumes "ctx (To.target self) = Some stack" and "stack \<noteq> []"
  shows "(case to (To.ty self) (last stack) (To.backend self) of
            Inl e \<Rightarrow> To_evaluate self thread index_range b vals ctx = (Raise e, self, ctx)
          | Inr new_value \<Rightarrow>
              To_evaluate self thread index_range b vals ctx =
                (Return PNone, self, ctx(To.target self \<mapsto> butlast stack @ [new_value])))
       \<and> map_option length (snd (snd (To_evaluate self thread index_range b vals ctx)) (To.target self))
           = Some (length stack)
       \<and> (\<forall>t. t \<noteq> To.target self \<longrightarrow>
             snd (snd (To_evaluate self thread index_range b vals ctx)) t = ctx t)"
proof -
  have u: "stack[length stack - Suc 0 := x] = butlast stack @ [x]" for x
    using assms(2) by (induction stack) (auto split: nat.splits)
  show ?thesis
    using assms by (simp add: To_evaluate_def u split: sum.splits)
qed

text \<open>
  A conversion that wraps the value for the accelerator: the top of slot 0 is
  replaced, the slot keeps its two entries, and slot 1 is untouched.
\<close>

theorem To_evaluate_depth_witness:
  "(let self = \<lparr>To.target = 0,
                To.ty = DataFrameSplit (\<lambda>v b. Inr (case b of CPU \<Rightarrow> v | GPU \<Rightarrow> PFrame [v])),
                To.backend = GPU\<rparr>;
        ctx = [0 \<mapsto> [PInt 1, PInt 2], 1 \<mapsto> [PInt 7]]
    in ctx (To.target self) = Some [PInt 1, PInt 2]
     \<and> To_evaluate self 0 (0, 4) 0 Map.empty ctx =
           (Return PNone, self, ctx(0 \<mapsto> [PInt 1, PFrame [PInt 2]]))
     \<and> map_option length (snd (snd (To_evaluate self 0 (0, 4) 0 Map.empty ctx)) 0) = Some 2
     \<and> snd (snd (To_evaluate self 0 (0, 4) 0 Map.empty ctx)) 1 = Some [PInt 7])"
proof -
  define self where "self = \<lparr>To.target = 0,
                To.ty = DataFrameSplit (\<lambda>v b. Inr (case b of CPU \<Rightarrow> v | GPU \<Rightarrow> PFrame [v])),
                To.backend = GPU\<rparr>"
  define ctx :: "context" where "ctx = [0 \<mapsto> [PInt 1, PInt 2], 1 \<mapsto> [PInt 7]]"
  have h: "ctx (To.target self) = Some [PInt 1, PInt 2]" "[PInt 1, PInt 2] \<noteq> []"
    by (simp_all add: self_def ctx_def)
  have "ctx (To.target self) = Some [PInt 1, PInt 2]
     \<and> To_evaluate self 0 (0, 4) 0 Map.empty ctx =
           (Return PNone, self, ctx(0 \<mapsto> [PInt 1, PFrame [PInt 2]]))
     \<and> map_option length (snd (snd (To_evaluate self 0 (0, 4) 0 Map.empty ctx)) 0) = Some 2
     \<and> snd (snd (To_evaluate self 0 (0, 4) 0 Map.empty ctx)) 1 = Some [PInt 7]"
    using h To_evaluate_depth [of ctx self "[PInt 1, PInt 2]" 0 "(0, 4)" 0 Map.empty]
    by (simp add: self_def ctx_def DataFrameSplit_def)
  then show ?thesis
    by (simp add: Let_def self_def ctx_def)
qed

section \<open>Properties of the pandas split types\<close>





end
